theory Spec2Isabelle
  imports Complex_Main
begin

section \<open>The device command server (main.py)\<close>

text \<open>
  The program is a FastAPI application with one shared dictionary,
  \<^verbatim>\<open>active_connections: Dict[str, WebSocket]\<close>, three HTTP handlers (\<^verbatim>\<open>root\<close>,
  \<^verbatim>\<open>health\<close>, \<^verbatim>\<open>send_command\<close>) and one WebSocket handler (\<^verbatim>\<open>websocket_endpoint\<close>).
  The handlers are coroutines of a single event loop: the code between two \<^verbatim>\<open>await\<close>s
  runs without interruption, and other coroutines run only while one is suspended at an
  \<^verbatim>\<open>await\<close>. The model therefore gives every handler as a function on the server state,
  and makes the \<^verbatim>\<open>await\<close> inside \<^verbatim>\<open>send_command\<close> a point where a step of the other
  coroutines can be inserted.

  Exceptions are values. Only instances of \<^verbatim>\<open>Exception\<close> are modelled; task cancellation
  and interpreter exit (\<^verbatim>\<open>BaseException\<close> outside \<^verbatim>\<open>Exception\<close>) are not.
\<close>

subsection \<open>Exceptions\<close>

datatype exn_class =
    KeyError
  | AttributeError
  | JSONDecodeError
  | WebSocketDisconnect
  | RuntimeError

text \<open>An exception instance: its class and the text that \<^verbatim>\<open>str(e)\<close> yields.\<close>

datatype pyexn = Exn (exn_class: exn_class) (exn_str: string)

text \<open>
  \<^verbatim>\<open>repr\<close> of a Python string, which is what \<^verbatim>\<open>str\<close> of a \<^verbatim>\<open>KeyError\<close> shows: single
  quotes unless the string has a single quote and no double quote; the quote and the
  backslash escaped; control characters in their escaped form.
\<close>

definition hex_digit :: "nat \<Rightarrow> char" where
  "hex_digit n = (if n < 10 then char_of (48 + n) else char_of (87 + n))"

definition py_repr_char :: "char \<Rightarrow> char \<Rightarrow> string" where
  "py_repr_char q c =
     (if c = q \<or> c = CHR 0x5C then [CHR 0x5C, c]
      else if c = CHR 0x0A then [CHR 0x5C, CHR ''n'']
      else if c = CHR 0x0D then [CHR 0x5C, CHR ''r'']
      else if c = CHR 0x09 then [CHR 0x5C, CHR ''t'']
      else if (of_char c :: nat) < 32 \<or> (of_char c :: nat) = 127
        then [CHR 0x5C, CHR ''x'', hex_digit ((of_char c :: nat) div 16),
              hex_digit ((of_char c :: nat) mod 16)]
      else [c])"

definition py_repr :: "string \<Rightarrow> string" where
  "py_repr s =
     (let q = (if CHR 0x27 \<in> set s \<and> CHR 0x22 \<notin> set s then CHR 0x22 else CHR 0x27)
      in q # concat (map (py_repr_char q) s) @ [q])"

subsection \<open>Dictionaries\<close>

text \<open>
  A Python \<^verbatim>\<open>dict\<close> keeps its keys in insertion order and holds each key once. It is
  modelled as an association list; \<open>dict_ok\<close> is the invariant that no key occurs twice.
  Reading or deleting a key that is absent raises \<^verbatim>\<open>KeyError\<close>.
\<close>

type_synonym 'v dict = "(string \<times> 'v) list"

definition dict_ok :: "'v dict \<Rightarrow> bool" where
  "dict_ok d = distinct (map fst d)"

text \<open>\<^verbatim>\<open>k in d\<close>\<close>

primrec dict_contains :: "string \<Rightarrow> 'v dict \<Rightarrow> bool" where
  "dict_contains k [] = False"
| "dict_contains k (p # d) = (fst p = k \<or> dict_contains k d)"

text \<open>\<^verbatim>\<open>d[k]\<close>\<close>

primrec dict_getitem :: "string \<Rightarrow> 'v dict \<Rightarrow> pyexn + 'v" where
  "dict_getitem k [] = Inl (Exn KeyError (py_repr k))"
| "dict_getitem k (p # d) = (if fst p = k then Inr (snd p) else dict_getitem k d)"

text \<open>\<^verbatim>\<open>d[k] = v\<close>: an existing key keeps its place, a new key goes to the end.\<close>

primrec dict_setitem :: "string \<Rightarrow> 'v \<Rightarrow> 'v dict \<Rightarrow> 'v dict" where
  "dict_setitem k v [] = [(k, v)]"
| "dict_setitem k v (p # d) = (if fst p = k then (k, v) # d else p # dict_setitem k v d)"

text \<open>\<^verbatim>\<open>del d[k]\<close>\<close>

primrec dict_remove :: "string \<Rightarrow> 'v dict \<Rightarrow> 'v dict" where
  "dict_remove k [] = []"
| "dict_remove k (p # d) = (if fst p = k then dict_remove k d else p # dict_remove k d)"

definition dict_delitem :: "string \<Rightarrow> 'v dict \<Rightarrow> pyexn + 'v dict" where
  "dict_delitem k d =
     (if dict_contains k d then Inr (dict_remove k d) else Inl (Exn KeyError (py_repr k)))"

text \<open>\<^verbatim>\<open>len(d)\<close> and \<^verbatim>\<open>list(d.keys())\<close>\<close>

definition dict_len :: "'v dict \<Rightarrow> nat" where
  "dict_len d = length d"

definition dict_keys :: "'v dict \<Rightarrow> string list" where
  "dict_keys d = map fst d"

subsection \<open>The connection registry\<close>

text \<open>
  A \<^verbatim>\<open>WebSocket\<close> object is known by its identity: two connections of one device are two
  objects. The registry is the dictionary \<^verbatim>\<open>active_connections\<close>, empty when the module is
  loaded (line 40).
\<close>

type_synonym ws = nat

type_synonym registry = "ws dict"

definition initial_connections :: registry where
  "initial_connections = []"

text \<open>Line 146, \<^verbatim>\<open>active_connections[device_id] = websocket\<close>.\<close>

definition register :: "string \<Rightarrow> ws \<Rightarrow> registry \<Rightarrow> registry" where
  "register device_id websocket conns = dict_setitem device_id websocket conns"

text \<open>
  Lines 194-195 (the \<^verbatim>\<open>finally\<close> block of the session) and, with the same text, lines
  125-126 (the \<^verbatim>\<open>except\<close> block of \<^verbatim>\<open>send_command\<close>):
  \<^verbatim>\<open>if device_id in active_connections: del active_connections[device_id]\<close>.
  The argument \<open>websocket\<close> is the connection on whose behalf the block runs; the code does
  not look at it.
\<close>

definition deregister :: "string \<Rightarrow> ws \<Rightarrow> registry \<Rightarrow> pyexn + registry" where
  "deregister device_id websocket conns =
     (if dict_contains device_id conns then dict_delitem device_id conns else Inr conns)"

text \<open>
  Lines 98 and 106: the membership test, then \<^verbatim>\<open>active_connections[device_id]\<close>.
\<close>

definition lookup :: "string \<Rightarrow> registry \<Rightarrow> ws option" where
  "lookup device_id conns =
     (if \<not> dict_contains device_id conns then None
      else (case dict_getitem device_id conns of Inl e \<Rightarrow> None | Inr websocket \<Rightarrow> Some websocket))"

text \<open>
  A history of the registry: the registrations and cleanups that the sessions have run
  since the module was loaded, oldest first.
\<close>

datatype registry_op = Register string ws | Deregister string ws

fun apply_op :: "registry_op \<Rightarrow> registry \<Rightarrow> pyexn + registry" where
  "apply_op (Register device_id websocket) conns = Inr (register device_id websocket conns)"
| "apply_op (Deregister device_id websocket) conns = deregister device_id websocket conns"

fun apply_ops :: "registry_op list \<Rightarrow> registry \<Rightarrow> pyexn + registry" where
  "apply_ops [] conns = Inr conns"
| "apply_ops (x # xs) conns =
     (case apply_op x conns of Inl e \<Rightarrow> Inl e | Inr conns' \<Rightarrow> apply_ops xs conns')"

fun registers :: "string \<Rightarrow> registry_op \<Rightarrow> bool" where
  "registers k (Register device_id websocket) = (device_id = k)"
| "registers k (Deregister device_id websocket) = False"

subsection \<open>JSON values\<close>

text \<open>
  What \<^verbatim>\<open>json.loads\<close> returns and \<^verbatim>\<open>json.dumps\<close> takes. The two functions belong to the
  Python library; the handlers below take them as the parameters \<open>loads\<close> and \<open>dumps\<close>.
  \<open>loads\<close> raises \<^verbatim>\<open>JSONDecodeError\<close> on a text that is not JSON. An object is the list of
  its members in order; a Python \<^verbatim>\<open>dict\<close> holds each key once.
\<close>

datatype json =
    JNull
  | JBool bool
  | JInt int
  | JFloat real
  | JStr string
  | JList "json list"
  | JDict "(string \<times> json) list"

fun py_type_name :: "json \<Rightarrow> string" where
  "py_type_name JNull = ''NoneType''"
| "py_type_name (JBool b) = ''bool''"
| "py_type_name (JInt i) = ''int''"
| "py_type_name (JFloat x) = ''float''"
| "py_type_name (JStr s) = ''str''"
| "py_type_name (JList xs) = ''list''"
| "py_type_name (JDict kvs) = ''dict''"

fun is_dict :: "json \<Rightarrow> bool" where
  "is_dict (JDict kvs) = True"
| "is_dict j = False"

text \<open>
  \<^verbatim>\<open>message.get(key, default)\<close>: only a \<^verbatim>\<open>dict\<close> has the method; on every other value the
  attribute access raises \<^verbatim>\<open>AttributeError\<close>.
\<close>

definition no_attribute :: "json \<Rightarrow> string \<Rightarrow> pyexn" where
  "no_attribute j name =
     Exn AttributeError ([CHR 0x27] @ py_type_name j @ [CHR 0x27] @ '' object has no attribute ''
                         @ [CHR 0x27] @ name @ [CHR 0x27])"

fun py_get :: "json \<Rightarrow> string \<Rightarrow> json \<Rightarrow> pyexn + json" where
  "py_get (JDict kvs) key dflt = Inr (case map_of kvs key of None \<Rightarrow> dflt | Some v \<Rightarrow> v)"
| "py_get j key dflt = Inl (no_attribute j ''get'')"

subsection \<open>The log\<close>

datatype level = INFO | WARNING | ERROR

text \<open>One constructor for each logging call of the program, with the values it formats.\<close>

datatype log_message =
    ReceivedCommand string string
  | DeviceNotConnected string
  | CommandSent string string
  | ErrorSendingCommand string pyexn
  | DeviceConnected string
  | ReceivedMessage string json
  | DeviceResponse string json
  | DeviceStatus string json
  | DeviceError string json
  | ReceivedPlainText string string
  | DeviceDisconnected string
  | ErrorHandlingMessage string pyexn
  | WebSocketError string pyexn
  | ConnectionClosed string

subsection \<open>The server state\<close>

text \<open>
  The transport is outside the program. A channel is what the model knows of one
  \<^verbatim>\<open>WebSocket\<close>: the texts written to it so far, and whether a write to it fails (the
  exception that \<^verbatim>\<open>send_text\<close> then raises).
\<close>

record channel =
  outbox :: "string list"
  fault :: "pyexn option"

record server =
  active_connections :: registry
  sockets :: "ws \<Rightarrow> channel"
  logged :: "(level \<times> log_message) list"

type_synonym 'a outcome = "(pyexn + 'a) \<times> server"

definition logger :: "level \<Rightarrow> log_message \<Rightarrow> server \<Rightarrow> server" where
  "logger lv m st = st\<lparr>logged := logged st @ [(lv, m)]\<rparr>"

text \<open>\<^verbatim>\<open>await websocket.send_text(text)\<close>\<close>

definition send_text :: "ws \<Rightarrow> string \<Rightarrow> server \<Rightarrow> unit outcome" where
  "send_text websocket text st =
     (case fault (sockets st websocket) of
        Some e \<Rightarrow> (Inl e, st)
      | None \<Rightarrow>
          (Inr (), st\<lparr>sockets := (sockets st)
             (websocket := (sockets st websocket)\<lparr>outbox := outbox (sockets st websocket) @ [text]\<rparr>)\<rparr>))"

subsection \<open>The status endpoint: root\<close>

record status_report =
  report_status :: string
  report_active_connections :: nat
  report_devices :: "string list"

definition root_endpoint :: "server \<Rightarrow> status_report" where
  "root_endpoint st =
     \<lparr>report_status = ''online'',
      report_active_connections = dict_len (active_connections st),
      report_devices = dict_keys (active_connections st)\<rparr>"

subsection \<open>The command endpoint: send_command\<close>

record send_command_request =
  req_device_id :: string
  req_cmd :: string

record send_command_response =
  resp_success :: bool
  resp_message :: string
  resp_device_id :: string

text \<open>Lines 110-113; \<open>now\<close> is the reading of the event loop's clock.\<close>

definition command_data :: "string \<Rightarrow> real \<Rightarrow> json" where
  "command_data cmd now = JDict [(''cmd'', JStr cmd), (''timestamp'', JFloat now)]"

text \<open>Lines 115-121, after the write has returned.\<close>

definition send_command_sent :: "string \<Rightarrow> string \<Rightarrow> server \<Rightarrow> send_command_response outcome" where
  "send_command_sent device_id cmd st =
     (Inr \<lparr>resp_success = True,
           resp_message = ''Command '' @ [CHR 0x27] @ cmd @ [CHR 0x27] @ '' sent to device '' @ device_id,
           resp_device_id = device_id\<rparr>,
      logger INFO (CommandSent device_id cmd) st)"

text \<open>
  Lines 122-132, the handler of an exception \<open>e\<close> raised in the \<^verbatim>\<open>try\<close> block; \<open>websocket\<close>
  is the connection that the write was attempted on.
\<close>

definition send_command_except ::
    "string \<Rightarrow> ws \<Rightarrow> pyexn \<Rightarrow> server \<Rightarrow> send_command_response outcome" where
  "send_command_except device_id websocket e st =
     (let st1 = logger ERROR (ErrorSendingCommand device_id e) st
      in case deregister device_id websocket (active_connections st1) of
           Inl e' \<Rightarrow> (Inl e', st1)
         | Inr conns \<Rightarrow>
             (Inr \<lparr>resp_success = False,
                   resp_message = ''Error sending command: '' @ exn_str e,
                   resp_device_id = device_id\<rparr>,
              st1\<lparr>active_connections := conns\<rparr>))"

text \<open>
  The whole handler. It is suspended once, at the \<^verbatim>\<open>await\<close> of line 114; \<open>others\<close> is what
  the other coroutines do to the server state during that suspension, before the write
  returns or raises.
\<close>

definition send_command_interleaved ::
    "(json \<Rightarrow> string) \<Rightarrow> real \<Rightarrow> (server \<Rightarrow> server) \<Rightarrow> send_command_request \<Rightarrow> server
      \<Rightarrow> send_command_response outcome" where
  "send_command_interleaved dumps now others request st =
     (let device_id = req_device_id request;
          cmd = req_cmd request;
          st1 = logger INFO (ReceivedCommand device_id cmd) st
      in if \<not> dict_contains device_id (active_connections st1) then
           (Inr \<lparr>resp_success = False,
                 resp_message = ''Device '' @ device_id @ '' is not connected'',
                 resp_device_id = device_id\<rparr>,
            logger WARNING (DeviceNotConnected device_id) st1)
         else
           (case dict_getitem device_id (active_connections st1) of
              Inl e \<Rightarrow> (Inl e, st1)
            | Inr websocket \<Rightarrow>
                (case send_text websocket (dumps (command_data cmd now)) (others st1) of
                   (Inl e, st2) \<Rightarrow> send_command_except device_id websocket e st2
                 | (Inr u, st2) \<Rightarrow> send_command_sent device_id cmd st2)))"

text \<open>The handler when nothing else runs during its suspension.\<close>

definition send_command ::
    "(json \<Rightarrow> string) \<Rightarrow> real \<Rightarrow> send_command_request \<Rightarrow> server \<Rightarrow> send_command_response outcome" where
  "send_command dumps now request st = send_command_interleaved dumps now (\<lambda>s. s) request st"

subsection \<open>The device session: websocket_endpoint\<close>

text \<open>
  Lines 143-146, what the session does between the return of \<^verbatim>\<open>accept\<close> and its next
  \<^verbatim>\<open>await\<close>: it logs the connection and stores it in the registry.
\<close>

definition websocket_endpoint_begin :: "string \<Rightarrow> ws \<Rightarrow> server \<Rightarrow> server" where
  "websocket_endpoint_begin device_id websocket st =
     (let st1 = logger INFO (DeviceConnected device_id) st
      in st1\<lparr>active_connections := register device_id websocket (active_connections st1)\<rparr>)"

text \<open>Lines 150-154.\<close>

definition welcome_msg :: "string \<Rightarrow> json" where
  "welcome_msg device_id =
     JDict [(''type'', JStr ''connected''),
            (''message'', JStr (''Device '' @ device_id @ '' connected successfully'')),
            (''device_id'', JStr device_id)]"

text \<open>Line 168.\<close>

definition msg_type_of :: "json \<Rightarrow> pyexn + json" where
  "msg_type_of message = py_get message ''type'' (JStr ''response'')"

text \<open>A logging call whose text formats \<^verbatim>\<open>message.get(key, '')\<close> (lines 171, 174, 177).\<close>

definition log_field ::
    "level \<Rightarrow> (json \<Rightarrow> log_message) \<Rightarrow> json \<Rightarrow> string \<Rightarrow> server \<Rightarrow> unit outcome" where
  "log_field lv mk message key st =
     (case py_get message key (JStr []) of
        Inl e \<Rightarrow> (Inl e, st)
      | Inr v \<Rightarrow> (Inr (), logger lv (mk v) st))"

text \<open>Lines 164-177, the body of the inner \<^verbatim>\<open>try\<close>.\<close>

definition classify_message ::
    "(string \<Rightarrow> pyexn + json) \<Rightarrow> string \<Rightarrow> string \<Rightarrow> server \<Rightarrow> unit outcome" where
  "classify_message loads device_id data st =
     (case loads data of
        Inl e \<Rightarrow> (Inl e, st)
      | Inr message \<Rightarrow>
          (let st1 = logger INFO (ReceivedMessage device_id message) st
           in case msg_type_of message of
                Inl e \<Rightarrow> (Inl e, st1)
              | Inr msg_type \<Rightarrow>
                  if msg_type = JStr ''response'' then
                    log_field INFO (DeviceResponse device_id) message ''data'' st1
                  else if msg_type = JStr ''status'' then
                    log_field INFO (DeviceStatus device_id) message ''status'' st1
                  else if msg_type = JStr ''error'' then
                    log_field ERROR (DeviceError device_id) message ''error'' st1
                  else (Inr (), st1)))"

text \<open>Lines 163-181, the inner \<^verbatim>\<open>try\<close> with its \<^verbatim>\<open>except json.JSONDecodeError\<close>.\<close>

definition handle_text ::
    "(string \<Rightarrow> pyexn + json) \<Rightarrow> string \<Rightarrow> string \<Rightarrow> server \<Rightarrow> unit outcome" where
  "handle_text loads device_id data st =
     (case classify_message loads device_id data st of
        (Inl e, st') \<Rightarrow>
          if exn_class e = JSONDecodeError
          then (Inr (), logger INFO (ReceivedPlainText device_id data) st')
          else (Inl e, st')
      | (Inr u, st') \<Rightarrow> (Inr u, st'))"

text \<open>What one \<^verbatim>\<open>await websocket.receive_text()\<close> yields: a text, or an exception.\<close>

datatype received = Text string | Raises pyexn

datatype flow = Continue | Break

text \<open>Lines 159-188, one pass through the body of \<^verbatim>\<open>while True\<close>.\<close>

definition loop_iteration ::
    "(string \<Rightarrow> pyexn + json) \<Rightarrow> string \<Rightarrow> received \<Rightarrow> server \<Rightarrow> flow \<times> server" where
  "loop_iteration loads device_id r st =
     (case (case r of
              Raises e \<Rightarrow> (Inl e, st)
            | Text data \<Rightarrow> handle_text loads device_id data st) of
        (Inl e, st') \<Rightarrow>
          if exn_class e = WebSocketDisconnect
          then (Break, logger INFO (DeviceDisconnected device_id) st')
          else (Break, logger ERROR (ErrorHandlingMessage device_id e) st')
      | (Inr u, st') \<Rightarrow> (Continue, st'))"

text \<open>
  The loop, run on what the channel has delivered so far. When the list is used up the
  session is suspended in \<^verbatim>\<open>receive_text\<close>: the loop has not ended.
\<close>

datatype loop_state = Reading | Exited

fun message_loop ::
    "(string \<Rightarrow> pyexn + json) \<Rightarrow> string \<Rightarrow> received list \<Rightarrow> server \<Rightarrow> loop_state \<times> server" where
  "message_loop loads device_id [] st = (Reading, st)"
| "message_loop loads device_id (r # rs) st =
     (case loop_iteration loads device_id r st of
        (Break, st') \<Rightarrow> (Exited, st')
      | (Continue, st') \<Rightarrow> message_loop loads device_id rs st')"

text \<open>Lines 192-196, the \<^verbatim>\<open>finally\<close> block.\<close>

datatype session_state = Connected | Closed | Failed pyexn

definition websocket_endpoint_finally :: "string \<Rightarrow> ws \<Rightarrow> server \<Rightarrow> session_state \<times> server" where
  "websocket_endpoint_finally device_id websocket st =
     (case deregister device_id websocket (active_connections st) of
        Inl e \<Rightarrow> (Failed e, st)
      | Inr conns \<Rightarrow> (Closed, logger INFO (ConnectionClosed device_id) (st\<lparr>active_connections := conns\<rparr>)))"

text \<open>
  The whole session, run on the outcome of \<^verbatim>\<open>accept\<close> and on what the channel has
  delivered so far, when no other coroutine touches the state in between.
\<close>

definition websocket_endpoint ::
    "(json \<Rightarrow> string) \<Rightarrow> (string \<Rightarrow> pyexn + json) \<Rightarrow> ws \<Rightarrow> string \<Rightarrow> pyexn option \<Rightarrow> received list
      \<Rightarrow> server \<Rightarrow> session_state \<times> server" where
  "websocket_endpoint dumps loads websocket device_id accept rs st =
     (case accept of
        Some e \<Rightarrow> (Failed e, st)
      | None \<Rightarrow>
          (let st2 = websocket_endpoint_begin device_id websocket st
           in case send_text websocket (dumps (welcome_msg device_id)) st2 of
                (Inl e, st3) \<Rightarrow>
                  websocket_endpoint_finally device_id websocket
                    (logger ERROR (WebSocketError device_id e) st3)
              | (Inr u, st3) \<Rightarrow>
                  (case message_loop loads device_id rs st3 of
                     (Reading, st4) \<Rightarrow> (Connected, st4)
                   | (Exited, st4) \<Rightarrow> websocket_endpoint_finally device_id websocket st4)))"

subsection \<open>Values for the examples\<close>

text \<open>
  What \<^verbatim>\<open>json.loads\<close> returns on the three texts that the examples use: a number, an
  object with no member, and a text that is not JSON. Every other text is given the
  decoding error; the examples do not use one.
\<close>

definition example_loads :: "string \<Rightarrow> pyexn + json" where
  "example_loads data =
     (if data = ''123'' then Inr (JInt 123)
      else if data = ''{}'' then Inr (JDict [])
      else Inl (Exn JSONDecodeError ''Expecting value: line 1 column 1 (char 0)''))"

text \<open>
  A stand-in for \<^verbatim>\<open>json.dumps\<close> in the examples, none of which depends on the text
  written: the name of the value's type.
\<close>

definition example_dumps :: "json \<Rightarrow> string" where
  "example_dumps j = py_type_name j"

definition idle_channel :: channel where
  "idle_channel = \<lparr>outbox = [], fault = None\<rparr>"

definition broken_channel :: channel where
  "broken_channel = \<lparr>outbox = [], fault = Some (Exn RuntimeError ''connection closed'')\<rparr>"

definition idle_sockets :: "ws \<Rightarrow> channel" where
  "idle_sockets = (\<lambda>websocket. idle_channel)"

text \<open>
  Server states: no device connected; the device pi-1 connected as connection 1 whose
  channel has broken; the same device with its channel open; and the first of these with a
  second device, pi-3, connected as connection 3.
\<close>

definition empty_server :: server where
  "empty_server = \<lparr>active_connections = initial_connections, sockets = idle_sockets, logged = []\<rparr>"

definition stale_server :: server where
  "stale_server =
     \<lparr>active_connections = [(''pi-1'', 1)], sockets = idle_sockets(1 := broken_channel), logged = []\<rparr>"

definition live_server :: server where
  "live_server = \<lparr>active_connections = [(''pi-1'', 1)], sockets = idle_sockets, logged = []\<rparr>"

definition two_device_server :: server where
  "two_device_server =
     \<lparr>active_connections = [(''pi-1'', 1), (''pi-3'', 3)],
      sockets = idle_sockets(1 := broken_channel), logged = []\<rparr>"

definition reboot_request :: send_command_request where
  "reboot_request = \<lparr>req_device_id = ''pi-1'', req_cmd = ''reboot''\<rparr>"

section \<open>Properties of the dictionary operations\<close>

lemma dict_contains_iff: "dict_contains k d \<longleftrightarrow> k \<in> fst ` set d"
  by (induction d) auto

lemma dict_getitem_map_of:
  "dict_getitem k d = (case map_of d k of None \<Rightarrow> Inl (Exn KeyError (py_repr k)) | Some v \<Rightarrow> Inr v)"
  by (induction d) auto

lemma lookup_map_of: "lookup k conns = map_of conns k"
proof (cases "map_of conns k")
  case None
  then have "\<not> dict_contains k conns"
    by (simp add: dict_contains_iff map_of_eq_None_iff)
  with None show ?thesis by (simp add: lookup_def)
next
  case (Some v)
  then have "dict_contains k conns"
    by (auto simp: dict_contains_iff dest: map_of_SomeD intro: rev_image_eqI)
  with Some show ?thesis by (simp add: lookup_def dict_getitem_map_of)
qed

lemma map_of_dict_setitem: "map_of (dict_setitem k v d) = (map_of d)(k \<mapsto> v)"
  by (induction d) auto

lemma map_of_dict_remove: "map_of (dict_remove k d) = (map_of d)(k := None)"
  by (induction d) auto

lemma keys_dict_setitem: "fst ` set (dict_setitem k v d) = insert k (fst ` set d)"
  by (induction d) auto

lemma keys_dict_remove: "fst ` set (dict_remove k d) = fst ` set d - {k}"
  by (induction d) auto

lemma dict_remove_absent: "\<not> dict_contains k d \<Longrightarrow> dict_remove k d = d"
  by (induction d) auto

lemma dict_contains_remove: "\<not> dict_contains k (dict_remove k d)"
  by (simp add: dict_contains_iff keys_dict_remove)

lemma dict_ok_setitem: "dict_ok d \<Longrightarrow> dict_ok (dict_setitem k v d)"
proof (induction d)
  case Nil
  then show ?case by (simp add: dict_ok_def)
next
  case (Cons p d)
  then show ?case
    using keys_dict_setitem [of k v d] by (auto simp: dict_ok_def)
qed

lemma dict_ok_remove: "dict_ok d \<Longrightarrow> dict_ok (dict_remove k d)"
proof (induction d)
  case Nil
  then show ?case by simp
next
  case (Cons p d)
  then show ?case
    using keys_dict_remove [of k d] by (auto simp: dict_ok_def)
qed

lemma deregister_eq: "deregister device_id websocket conns = Inr (dict_remove device_id conns)"
  by (simp add: deregister_def dict_delitem_def dict_remove_absent)

lemma lookup_register: "lookup k (register device_id websocket conns) =
    (if k = device_id then Some websocket else lookup k conns)"
  by (simp add: lookup_map_of register_def map_of_dict_setitem)

lemma lookup_dict_remove: "lookup k (dict_remove device_id conns) =
    (if k = device_id then None else lookup k conns)"
  by (simp add: lookup_map_of map_of_dict_remove)

lemma apply_op_unregistered:
  assumes "apply_op x conns = Inr conns'" and "\<not> registers k x" and "lookup k conns = None"
  shows "lookup k conns' = None"
proof (cases x)
  case (Register device_id websocket)
  with assms show ?thesis by (auto simp: lookup_register)
next
  case (Deregister device_id websocket)
  with assms show ?thesis by (auto simp: deregister_eq lookup_dict_remove)
qed

lemma apply_ops_total: "\<exists>conns'. apply_ops xs conns = Inr conns'"
proof (induction xs arbitrary: conns)
  case Nil
  show ?case by simp
next
  case (Cons x xs)
  obtain c where "apply_op x conns = Inr c"
    by (cases x) (auto simp: deregister_eq)
  with Cons.IH [of c] show ?case by simp
qed

lemma apply_ops_unregistered:
  "apply_ops xs conns = Inr conns' \<Longrightarrow> \<forall>x \<in> set xs. \<not> registers k x \<Longrightarrow>
   lookup k conns = None \<Longrightarrow> lookup k conns' = None"
proof (induction xs arbitrary: conns)
  case Nil
  then show ?case by simp
next
  case (Cons x xs)
  then show ?case
    by (auto split: sum.splits dest: apply_op_unregistered)
qed

lemma apply_ops_dict_ok:
  "apply_ops xs conns = Inr conns' \<Longrightarrow> dict_ok conns \<Longrightarrow> dict_ok conns'"
proof (induction xs arbitrary: conns)
  case Nil
  then show ?case by simp
next
  case (Cons x xs)
  show ?case
  proof (cases x)
    case (Register device_id websocket)
    with Cons show ?thesis
      by (auto simp: register_def intro: dict_ok_setitem)
  next
    case (Deregister device_id websocket)
    with Cons show ?thesis
      by (auto simp: deregister_eq intro: dict_ok_remove)
  qed
qed

lemma lookup_None_iff: "lookup k conns = None \<longleftrightarrow> \<not> dict_contains k conns"
  by (simp add: lookup_map_of dict_contains_iff map_of_eq_None_iff)

lemma lookup_SomeD:
  assumes "lookup k conns = Some websocket"
  shows "dict_contains k conns" and "dict_getitem k conns = Inr websocket"
proof -
  from assms show "dict_contains k conns"
    using lookup_None_iff [of k conns] by auto
  from assms show "dict_getitem k conns = Inr websocket"
    by (simp add: lookup_map_of dict_getitem_map_of)
qed

section \<open>Properties of the handlers\<close>

lemma active_connections_logger [simp]:
  "active_connections (logger lv m st) = active_connections st"
  by (simp add: logger_def)

lemma sockets_logger [simp]: "sockets (logger lv m st) = sockets st"
  by (simp add: logger_def)

lemma py_get_not_dict: "\<not> is_dict j \<Longrightarrow> py_get j key dflt = Inl (no_attribute j ''get'')"
  by (cases j) simp_all

text \<open>
  The two cases in which the loop goes on to the next message: the text is not JSON, or it
  decodes to an object.
\<close>

lemma undecodable_text_continues:
  assumes "loads data = Inl e" and "exn_class e = JSONDecodeError"
  shows "loop_iteration loads device_id (Text data) st =
           (Continue, logger INFO (ReceivedPlainText device_id data) st)"
  using assms by (simp add: loop_iteration_def handle_text_def classify_message_def)

lemma object_message_continues:
  assumes "loads data = Inr (JDict kvs)"
  shows "fst (loop_iteration loads device_id (Text data) st) = Continue"
  using assms
  by (simp add: loop_iteration_def handle_text_def classify_message_def msg_type_of_def
      log_field_def Let_def)

text \<open>Every exception of \<^verbatim>\<open>receive_text\<close> ends the loop.\<close>

lemma receive_error_breaks: "fst (loop_iteration loads device_id (Raises e) st) = Break"
  by (simp add: loop_iteration_def)

text \<open>
  A session on the two texts of the examples: on \<^verbatim>\<open>hello world\<close> it stays connected, on
  \<^verbatim>\<open>123\<close> it closes and its identifier leaves the registry.
\<close>

lemma session_stays_on_plain_text:
  "fst (websocket_endpoint example_dumps example_loads 1 ''pi-1'' None [Text ''hello world'']
          empty_server) = Connected"
  by (simp add: websocket_endpoint_def websocket_endpoint_begin_def Let_def send_text_def
      empty_server_def idle_sockets_def idle_channel_def logger_def register_def
      initial_connections_def loop_iteration_def handle_text_def classify_message_def
      example_loads_def)

lemma session_closes_on_number:
  "fst (websocket_endpoint example_dumps example_loads 1 ''pi-1'' None [Text ''123'']
          empty_server) = Closed \<and>
   active_connections (snd (websocket_endpoint example_dumps example_loads 1 ''pi-1'' None
          [Text ''123''] empty_server)) = []"
  by (simp add: websocket_endpoint_def websocket_endpoint_begin_def Let_def send_text_def
      empty_server_def idle_sockets_def idle_channel_def logger_def register_def
      initial_connections_def loop_iteration_def handle_text_def classify_message_def
      msg_type_of_def example_loads_def no_attribute_def websocket_endpoint_finally_def
      deregister_def dict_delitem_def)

section \<open>The claims\<close>

subsection \<open>C1\<close>

text \<open>
  Claim C1 says that after \<open>register id s1\<close> and \<open>register id s2\<close> the cleanup of the
  superseded session, \<open>deregister id s1\<close>, leaves the mapping in place, so that \<open>lookup id\<close>
  still returns \<open>s2\<close>. The code deletes by key alone. For the device pi-1 and the
  connections 1 and 2: the lookup returns 2 after the two registrations, the cleanup of
  connection 1 empties the registry, and the lookup then returns nothing.
\<close>

theorem superseded_cleanup_counterexample:
  "lookup ''pi-1'' (register ''pi-1'' 2 (register ''pi-1'' 1 initial_connections)) = Some 2 \<and>
   deregister ''pi-1'' 1 (register ''pi-1'' 2 (register ''pi-1'' 1 initial_connections)) = Inr [] \<and>
   lookup ''pi-1'' [] = None"
  by (simp add: lookup_def deregister_def dict_delitem_def register_def initial_connections_def)

text \<open>
  Claim C1 as amended: after \<open>register id s1\<close> and \<open>register id s2\<close>, \<open>lookup id\<close> returns
  \<open>s2\<close>; \<open>deregister id s\<close> removes the mapping of \<open>id\<close> whichever session calls it, so after
  the cleanup of \<open>s1\<close> the lookup returns nothing, as it does after the cleanup of \<open>s2\<close>.
\<close>

theorem deregister_removes_any_session:
  "lookup device_id (register device_id s2 (register device_id s1 conns)) = Some s2 \<and>
   (\<exists>conns'. deregister device_id s1 (register device_id s2 (register device_id s1 conns))
                = Inr conns' \<and> lookup device_id conns' = None) \<and>
   (\<exists>conns'. deregister device_id s2 (register device_id s2 (register device_id s1 conns))
                = Inr conns' \<and> lookup device_id conns' = None)"
  by (simp add: lookup_register deregister_eq lookup_dict_remove)

theorem deregister_removes_any_session_witness:
  "lookup ''pi-1'' (register ''pi-1'' 2 (register ''pi-1'' 1 [(''pi-2'', 9)])) = Some 2 \<and>
   (\<exists>conns'. deregister ''pi-1'' 1 (register ''pi-1'' 2 (register ''pi-1'' 1 [(''pi-2'', 9)]))
                = Inr conns' \<and> lookup ''pi-1'' conns' = None) \<and>
   (\<exists>conns'. deregister ''pi-1'' 2 (register ''pi-1'' 2 (register ''pi-1'' 1 [(''pi-2'', 9)]))
                = Inr conns' \<and> lookup ''pi-1'' conns' = None)"
  using deregister_removes_any_session [of "''pi-1''" 2 1 "[(''pi-2'', 9)]"]
  by simp

subsection \<open>C2\<close>

text \<open>
  Claim C2 says that no inbound payload ends the session loop. In the code a text that
  \<^verbatim>\<open>json.loads\<close> decodes to a value other than an object does: \<^verbatim>\<open>message.get\<close> raises
  \<^verbatim>\<open>AttributeError\<close>, the handler of line 186 logs it and breaks, and the messages that
  follow are never read.
\<close>

theorem non_object_json_ends_loop:
  assumes "loads data = Inr j" and "\<not> is_dict j"
  shows "message_loop loads device_id (Text data # rest) st =
           (Exited, logger ERROR (ErrorHandlingMessage device_id (no_attribute j ''get''))
                      (logger INFO (ReceivedMessage device_id j) st))"
proof -
  from assms(2) have get: "msg_type_of j = Inl (no_attribute j ''get'')"
    by (simp add: msg_type_of_def py_get_not_dict)
  have cls: "exn_class (no_attribute j ''get'') = AttributeError"
    by (simp add: no_attribute_def)
  from assms(1) get cls
  have "loop_iteration loads device_id (Text data) st =
          (Break, logger ERROR (ErrorHandlingMessage device_id (no_attribute j ''get''))
                    (logger INFO (ReceivedMessage device_id j) st))"
    by (simp add: loop_iteration_def handle_text_def classify_message_def Let_def)
  then show ?thesis by simp
qed

text \<open>The text \<^verbatim>\<open>123\<close>, which decodes to the integer 123, followed by a second message.\<close>

theorem non_object_json_ends_loop_witness:
  "example_loads ''123'' = Inr (JInt 123) \<and> \<not> is_dict (JInt 123) \<and>
   message_loop example_loads ''pi-1'' [Text ''123'', Text ''hello world''] empty_server =
     (Exited, logger ERROR (ErrorHandlingMessage ''pi-1''
                 (Exn AttributeError ([CHR 0x27] @ ''int'' @ [CHR 0x27] @ '' object has no attribute ''
                    @ [CHR 0x27] @ ''get'' @ [CHR 0x27])))
                (logger INFO (ReceivedMessage ''pi-1'' (JInt 123)) empty_server))"
proof -
  have parsed: "example_loads ''123'' = Inr (JInt 123)"
    by (simp add: example_loads_def)
  have scalar: "\<not> is_dict (JInt 123)"
    by simp
  from parsed scalar
    non_object_json_ends_loop [where loads = example_loads and data = "''123''" and j = "JInt 123"
      and device_id = "''pi-1''" and rest = "[Text ''hello world'']" and st = empty_server]
  show ?thesis by (simp add: no_attribute_def)
qed

subsection \<open>C3\<close>

text \<open>
  Claim C3 says that when the write of \<^verbatim>\<open>send_command\<close> fails and the registry entry has
  meanwhile been replaced by a newer session, the cleanup leaves the newer entry in place.
  The cleanup of lines 125-126 deletes by key alone. The device pi-1 is registered as
  connection 1, whose channel has broken; while \<^verbatim>\<open>send_command\<close> is suspended in the
  write, the device reconnects as connection 2 (lines 143-146 of its new session); the
  write on connection 1 raises, and the cleanup removes the entry of connection 2.
\<close>

theorem dispatch_cleanup_counterexample:
  "lookup ''pi-1'' (active_connections stale_server) = Some 1 \<and>
   lookup ''pi-1'' (active_connections (websocket_endpoint_begin ''pi-1'' 2 stale_server)) = Some 2 \<and>
   fst (send_command_interleaved example_dumps 12.5 (websocket_endpoint_begin ''pi-1'' 2)
          reboot_request stale_server) =
     Inr \<lparr>resp_success = False,
          resp_message = ''Error sending command: connection closed'',
          resp_device_id = ''pi-1''\<rparr> \<and>
   lookup ''pi-1'' (active_connections (snd (send_command_interleaved example_dumps 12.5
          (websocket_endpoint_begin ''pi-1'' 2) reboot_request stale_server))) = None"
  by (simp add: stale_server_def reboot_request_def websocket_endpoint_begin_def
      send_command_interleaved_def Let_def send_text_def send_command_except_def
      deregister_def dict_delitem_def lookup_def register_def logger_def
      broken_channel_def idle_sockets_def idle_channel_def)

text \<open>
  Claim C3 as amended: when the write of \<^verbatim>\<open>send_command\<close> fails, the cleanup removes the
  entry registered under the identifier at that moment, whichever session holds it, also
  one that replaced the session the write was attempted on; the entries of all other
  identifiers are left as they were.
\<close>

theorem dispatch_cleanup_by_key:
  assumes "lookup (req_device_id request) (active_connections st) = Some websocket"
    and "fault (sockets (others (logger INFO
           (ReceivedCommand (req_device_id request) (req_cmd request)) st)) websocket) = Some e"
  shows "\<exists>st'. send_command_interleaved dumps now others request st =
           (Inr \<lparr>resp_success = False,
                 resp_message = ''Error sending command: '' @ exn_str e,
                 resp_device_id = req_device_id request\<rparr>, st') \<and>
          lookup (req_device_id request) (active_connections st') = None \<and>
          (\<forall>k. k \<noteq> req_device_id request \<longrightarrow>
               lookup k (active_connections st') =
               lookup k (active_connections (others (logger INFO
                 (ReceivedCommand (req_device_id request) (req_cmd request)) st))))"
proof -
  note reg = lookup_SomeD [OF assms(1)]
  from reg assms(2) show ?thesis
    by (simp add: send_command_interleaved_def Let_def send_text_def
        send_command_except_def deregister_eq lookup_dict_remove)
qed

text \<open>The run of the counterexample, with a second device connected.\<close>

theorem dispatch_cleanup_by_key_witness:
  "lookup ''pi-1'' (active_connections two_device_server) = Some 1 \<and>
   fault (sockets (websocket_endpoint_begin ''pi-1'' 2
            (logger INFO (ReceivedCommand ''pi-1'' ''reboot'') two_device_server)) 1)
     = Some (Exn RuntimeError ''connection closed'') \<and>
   (\<exists>st'. send_command_interleaved example_dumps 12.5 (websocket_endpoint_begin ''pi-1'' 2)
             reboot_request two_device_server =
           (Inr \<lparr>resp_success = False,
                 resp_message = ''Error sending command: connection closed'',
                 resp_device_id = ''pi-1''\<rparr>, st') \<and>
          lookup ''pi-1'' (active_connections st') = None \<and>
          lookup ''pi-3'' (active_connections st') = Some 3)"
proof -
  have reg: "lookup (req_device_id reboot_request) (active_connections two_device_server) = Some 1"
    by (simp add: reboot_request_def two_device_server_def lookup_def)
  have broken: "fault (sockets (websocket_endpoint_begin ''pi-1'' 2
      (logger INFO (ReceivedCommand (req_device_id reboot_request) (req_cmd reboot_request))
         two_device_server)) 1) = Some (Exn RuntimeError ''connection closed'')"
    by (simp add: websocket_endpoint_begin_def Let_def two_device_server_def broken_channel_def)
  have other: "lookup ''pi-3'' (active_connections (websocket_endpoint_begin ''pi-1'' 2
      (logger INFO (ReceivedCommand (req_device_id reboot_request) (req_cmd reboot_request))
         two_device_server))) = Some 3"
    by (simp add: websocket_endpoint_begin_def Let_def two_device_server_def lookup_def
        register_def)
  from dispatch_cleanup_by_key
      [where others = "websocket_endpoint_begin ''pi-1'' 2" and dumps = example_dumps
         and now = "12.5", OF reg broken]
  obtain st' where
    run: "send_command_interleaved example_dumps 12.5 (websocket_endpoint_begin ''pi-1'' 2)
             reboot_request two_device_server =
           (Inr \<lparr>resp_success = False,
                 resp_message = ''Error sending command: '' @ exn_str (Exn RuntimeError ''connection closed''),
                 resp_device_id = req_device_id reboot_request\<rparr>, st')"
    and gone: "lookup (req_device_id reboot_request) (active_connections st') = None"
    and frame: "\<forall>k. k \<noteq> req_device_id reboot_request \<longrightarrow>
               lookup k (active_connections st') =
               lookup k (active_connections (websocket_endpoint_begin ''pi-1'' 2 (logger INFO
                 (ReceivedCommand (req_device_id reboot_request) (req_cmd reboot_request)) two_device_server)))"
    by blast
  from frame other have "lookup ''pi-3'' (active_connections st') = Some 3"
    by (simp add: reboot_request_def)
  with run gone reg broken show ?thesis
    by (auto simp: reboot_request_def)
qed

subsection \<open>C4\<close>

text \<open>
  Claim C4: when the identifier of the request is registered and the channel of its session
  is writable, \<^verbatim>\<open>send_command\<close> returns a response with \<open>success = True\<close>, and the channel
  has observed one more write, the serialised envelope of the command string and the clock
  reading; no other channel is written to, the registry is unchanged, and no exception
  leaves the handler.
\<close>

theorem dispatch_writes_once:
  assumes "lookup (req_device_id request) (active_connections st) = Some websocket"
    and "fault (sockets st websocket) = None"
  shows "\<exists>st'. send_command dumps now request st =
           (Inr \<lparr>resp_success = True,
                 resp_message = ''Command '' @ [CHR 0x27] @ req_cmd request @ [CHR 0x27]
                                @ '' sent to device '' @ req_device_id request,
                 resp_device_id = req_device_id request\<rparr>, st') \<and>
          outbox (sockets st' websocket) =
            outbox (sockets st websocket)
            @ [dumps (JDict [(''cmd'', JStr (req_cmd request)), (''timestamp'', JFloat now)])] \<and>
          (\<forall>w. w \<noteq> websocket \<longrightarrow> sockets st' w = sockets st w) \<and>
          active_connections st' = active_connections st"
proof -
  note reg = lookup_SomeD [OF assms(1)]
  from reg assms(2) show ?thesis
    by (simp add: send_command_def send_command_interleaved_def Let_def send_text_def
        send_command_sent_def command_data_def)
qed

theorem dispatch_writes_once_witness:
  "lookup ''pi-1'' (active_connections live_server) = Some 1 \<and>
   fault (sockets live_server 1) = None \<and>
   (\<exists>st'. send_command example_dumps 12.5 reboot_request live_server =
           (Inr \<lparr>resp_success = True,
                 resp_message = ''Command 'reboot' sent to device pi-1'',
                 resp_device_id = ''pi-1''\<rparr>, st') \<and>
          outbox (sockets st' 1) =
            [example_dumps (JDict [(''cmd'', JStr ''reboot''), (''timestamp'', JFloat 12.5)])] \<and>
          (\<forall>w. w \<noteq> 1 \<longrightarrow> sockets st' w = sockets live_server w) \<and>
          active_connections st' = [(''pi-1'', 1)])"
proof -
  have reg: "lookup (req_device_id reboot_request) (active_connections live_server) = Some 1"
    by (simp add: reboot_request_def live_server_def lookup_def)
  have writable: "fault (sockets live_server 1) = None"
    by (simp add: live_server_def idle_sockets_def idle_channel_def)
  from reg writable dispatch_writes_once [OF reg writable, of example_dumps "12.5"]
  show ?thesis
    by (simp add: reboot_request_def live_server_def idle_sockets_def idle_channel_def)
qed

subsection \<open>C5\<close>

text \<open>
  Claim C5: when the identifier of the request is registered and the write to its session
  raises, \<^verbatim>\<open>send_command\<close> returns a response with \<open>success = False\<close>, no exception leaves
  the handler, and a lookup of the identifier in the registry afterwards returns nothing.
\<close>

theorem dispatch_write_failure:
  assumes "lookup (req_device_id request) (active_connections st) = Some websocket"
    and "fault (sockets st websocket) = Some e"
  shows "\<exists>st'. send_command dumps now request st =
           (Inr \<lparr>resp_success = False,
                 resp_message = ''Error sending command: '' @ exn_str e,
                 resp_device_id = req_device_id request\<rparr>, st') \<and>
          lookup (req_device_id request) (active_connections st') = None \<and>
          sockets st' = sockets st"
proof -
  note reg = lookup_SomeD [OF assms(1)]
  from reg assms(2) show ?thesis
    by (simp add: send_command_def send_command_interleaved_def Let_def send_text_def
        send_command_except_def deregister_eq lookup_dict_remove)
qed

theorem dispatch_write_failure_witness:
  "lookup ''pi-1'' (active_connections stale_server) = Some 1 \<and>
   fault (sockets stale_server 1) = Some (Exn RuntimeError ''connection closed'') \<and>
   (\<exists>st'. send_command example_dumps 12.5 reboot_request stale_server =
           (Inr \<lparr>resp_success = False,
                 resp_message = ''Error sending command: connection closed'',
                 resp_device_id = ''pi-1''\<rparr>, st') \<and>
          lookup ''pi-1'' (active_connections st') = None \<and>
          sockets st' = sockets stale_server)"
proof -
  have reg: "lookup (req_device_id reboot_request) (active_connections stale_server) = Some 1"
    by (simp add: reboot_request_def stale_server_def lookup_def)
  have broken: "fault (sockets stale_server 1) = Some (Exn RuntimeError ''connection closed'')"
    by (simp add: stale_server_def broken_channel_def)
  from reg broken dispatch_write_failure [OF reg broken, of example_dumps "12.5"]
  show ?thesis
    by (simp add: reboot_request_def)
qed

subsection \<open>C6\<close>

text \<open>
  Claim C6: when the identifier of the request is not in the registry, \<^verbatim>\<open>send_command\<close>
  returns a response with \<open>success = False\<close> whose message says that the device is not
  connected; no exception leaves the handler, and the registry and the channels are
  unchanged.
\<close>

theorem dispatch_unknown_device:
  assumes "lookup (req_device_id request) (active_connections st) = None"
  shows "\<exists>st'. send_command dumps now request st =
           (Inr \<lparr>resp_success = False,
                 resp_message = ''Device '' @ req_device_id request @ '' is not connected'',
                 resp_device_id = req_device_id request\<rparr>, st') \<and>
          active_connections st' = active_connections st \<and> sockets st' = sockets st"
proof -
  from assms have "\<not> dict_contains (req_device_id request) (active_connections st)"
    by (simp add: lookup_None_iff)
  then show ?thesis
    by (simp add: send_command_def send_command_interleaved_def Let_def)
qed

theorem dispatch_unknown_device_witness:
  "lookup ''pi-99'' (active_connections live_server) = None \<and>
   (\<exists>st'. send_command example_dumps 12.5 \<lparr>req_device_id = ''pi-99'', req_cmd = ''reboot''\<rparr>
             live_server =
           (Inr \<lparr>resp_success = False,
                 resp_message = ''Device pi-99 is not connected'',
                 resp_device_id = ''pi-99''\<rparr>, st') \<and>
          active_connections st' = active_connections live_server \<and>
          sockets st' = sockets live_server)"
proof -
  have absent: "lookup (req_device_id \<lparr>req_device_id = ''pi-99'', req_cmd = ''reboot''\<rparr>)
                  (active_connections live_server) = None"
    by (simp add: live_server_def lookup_def)
  from absent dispatch_unknown_device [OF absent, of example_dumps "12.5"] show ?thesis
    by simp
qed

subsection \<open>C7\<close>

text \<open>
  Claim C7: a lookup right after \<open>register id s\<close> returns \<open>s\<close>; and an identifier that was
  never registered is not found: not in the registry as the module creates it, and not
  after any history of registrations and cleanups none of which registers it.
\<close>

theorem register_lookup_roundtrip:
  "lookup device_id (register device_id websocket conns) = Some websocket \<and>
   lookup k initial_connections = None \<and>
   ((\<forall>x \<in> set ops. \<not> registers k x) \<longrightarrow>
      (\<exists>conns'. apply_ops ops initial_connections = Inr conns' \<and> lookup k conns' = None))"
proof -
  have first: "lookup device_id (register device_id websocket conns) = Some websocket"
    by (simp add: lookup_register)
  have second: "lookup k initial_connections = None"
    by (simp add: initial_connections_def lookup_def)
  have third: "\<exists>conns'. apply_ops ops initial_connections = Inr conns' \<and> lookup k conns' = None"
    if never: "\<forall>x \<in> set ops. \<not> registers k x"
  proof -
    obtain conns' where run: "apply_ops ops initial_connections = Inr conns'"
      using apply_ops_total by blast
    from run never second have "lookup k conns' = None"
      by (rule apply_ops_unregistered)
    with run show ?thesis by blast
  qed
  from first second third show ?thesis by blast
qed

theorem register_lookup_roundtrip_witness:
  "\<not> registers ''pi-1'' (Register ''pi-2'' 7) \<and>
   \<not> registers ''pi-1'' (Deregister ''pi-1'' 3) \<and>
   \<not> registers ''pi-1'' (Register ''pi-3'' 8) \<and>
   lookup ''pi-1'' (register ''pi-1'' 5 [(''pi-2'', 7)]) = Some 5 \<and>
   lookup ''pi-1'' initial_connections = None \<and>
   (\<exists>conns'. apply_ops [Register ''pi-2'' 7, Deregister ''pi-1'' 3, Register ''pi-3'' 8]
                initial_connections = Inr conns' \<and> lookup ''pi-1'' conns' = None)"
  using register_lookup_roundtrip
    [of "''pi-1''" 5 "[(''pi-2'', 7)]" "''pi-1''"
        "[Register ''pi-2'' 7, Deregister ''pi-1'' 3, Register ''pi-3'' 8]"]
  by simp

subsection \<open>C8\<close>

text \<open>
  Claim C8: \<open>deregister id s\<close> never raises, and running it a second time on the registry
  it returned raises nothing and returns that registry unchanged.
\<close>

theorem deregister_idempotent:
  "\<exists>conns'. deregister device_id websocket conns = Inr conns' \<and>
            deregister device_id websocket conns' = Inr conns'"
proof -
  have once: "deregister device_id websocket conns = Inr (dict_remove device_id conns)"
    by (rule deregister_eq)
  have "\<not> dict_contains device_id (dict_remove device_id conns)"
    by (rule dict_contains_remove)
  then have "deregister device_id websocket (dict_remove device_id conns) =
             Inr (dict_remove device_id conns)"
    by (simp add: deregister_def)
  with once show ?thesis by blast
qed

theorem deregister_idempotent_witness:
  "deregister ''pi-1'' 1 [(''pi-1'', 1), (''pi-2'', 2)] = Inr [(''pi-2'', 2)] \<and>
   deregister ''pi-1'' 1 [(''pi-2'', 2)] = Inr [(''pi-2'', 2)]"
  using deregister_idempotent [of "''pi-1''" 1 "[(''pi-1'', 1), (''pi-2'', 2)]"]
  by (simp add: deregister_def dict_delitem_def)

subsection \<open>C9\<close>

text \<open>
  Claim C9: for every state of the registry (a dictionary, so with no key twice), the count
  that \<^verbatim>\<open>root\<close> reports is the number of registered identifiers, and the list of devices
  it reports holds the registered identifiers, each once, and nothing else.
\<close>

theorem status_snapshot_consistent:
  assumes "dict_ok (active_connections st)"
  shows "report_active_connections (root_endpoint st) =
           card {k. lookup k (active_connections st) \<noteq> None} \<and>
         set (report_devices (root_endpoint st)) = {k. lookup k (active_connections st) \<noteq> None} \<and>
         distinct (report_devices (root_endpoint st))"
proof -
  let ?conns = "active_connections st"
  have keys: "{k. lookup k ?conns \<noteq> None} = set (map fst ?conns)"
    by (auto simp: lookup_map_of map_of_eq_None_iff)
  have dist: "distinct (map fst ?conns)"
    using assms by (simp add: dict_ok_def)
  then have "card (set (map fst ?conns)) = length ?conns"
    using distinct_card [of "map fst ?conns"] by simp
  with keys dist show ?thesis
    by (simp add: root_endpoint_def dict_len_def dict_keys_def)
qed

theorem status_snapshot_consistent_witness:
  "dict_ok (active_connections two_device_server) \<and>
   report_active_connections (root_endpoint two_device_server) =
     card {k. lookup k (active_connections two_device_server) \<noteq> None} \<and>
   set (report_devices (root_endpoint two_device_server)) =
     {k. lookup k (active_connections two_device_server) \<noteq> None} \<and>
   report_active_connections (root_endpoint two_device_server) = 2 \<and>
   report_devices (root_endpoint two_device_server) = [''pi-1'', ''pi-3'']"
proof -
  have ok: "dict_ok (active_connections two_device_server)"
    by (simp add: dict_ok_def two_device_server_def)
  have shown: "report_active_connections (root_endpoint two_device_server) = 2 \<and>
      report_devices (root_endpoint two_device_server) = [''pi-1'', ''pi-3'']"
    by (simp add: root_endpoint_def dict_keys_def dict_len_def two_device_server_def)
  from ok shown status_snapshot_consistent [OF ok] show ?thesis by blast
qed

subsection \<open>C10\<close>

text \<open>
  Claim C10: a message that decodes to an object with no member \<^verbatim>\<open>type\<close> gets the type
  \<^verbatim>\<open>response\<close>, and is handled on the response branch: after the record of the message the
  log receives the record of a device response with the member \<^verbatim>\<open>data\<close> (or the empty
  string), and the loop goes on.
\<close>

theorem missing_type_is_response:
  assumes "loads data = Inr (JDict kvs)" and "map_of kvs ''type'' = None"
  shows "msg_type_of (JDict kvs) = Inr (JStr ''response'') \<and>
         loop_iteration loads device_id (Text data) st =
           (Continue,
            logger INFO (DeviceResponse device_id
                           (case map_of kvs ''data'' of None \<Rightarrow> JStr [] | Some v \<Rightarrow> v))
              (logger INFO (ReceivedMessage device_id (JDict kvs)) st))"
  using assms
  by (simp add: loop_iteration_def handle_text_def classify_message_def msg_type_of_def
      log_field_def Let_def)

theorem missing_type_is_response_witness:
  "example_loads ''{}'' = Inr (JDict []) \<and> map_of ([] :: (string \<times> json) list) ''type'' = None \<and>
   msg_type_of (JDict []) = Inr (JStr ''response'') \<and>
   loop_iteration example_loads ''pi-1'' (Text ''{}'') empty_server =
     (Continue, logger INFO (DeviceResponse ''pi-1'' (JStr []))
                  (logger INFO (ReceivedMessage ''pi-1'' (JDict [])) empty_server))"
proof -
  have parsed: "example_loads ''{}'' = Inr (JDict [])"
    by (simp add: example_loads_def)
  have untyped: "map_of ([] :: (string \<times> json) list) ''type'' = None"
    by simp
  from parsed untyped
    missing_type_is_response [where loads = example_loads and data = "''{}''" and kvs = "[]"
      and device_id = "''pi-1''" and st = empty_server]
  show ?thesis by simp
qed

end
